theory Spec2Isabelle
  imports Main
begin

section \<open>JavaScript values and objects\<close>

text \<open>
  The values that reach the annotation pipeline of \<^verbatim>\<open>src/index.js\<close>: strings, booleans,
  \<^verbatim>\<open>null\<close>, \<^verbatim>\<open>undefined\<close> and plain objects (a link is \<^verbatim>\<open>{url: "..."}\<close>). Strings are
  byte lists holding the UTF-8 encoding of the JavaScript string. Numbers do not occur in
  the fields the code reads and are not modelled.
\<close>

datatype jsval =
    JUndefined
  | JNull
  | JBool bool
  | JStr string
  | JObj "(string \<times> jsval) list"

text \<open>A plain object is a map from keys to values; a key that is absent reads as \<^verbatim>\<open>undefined\<close>.\<close>

type_synonym obj = "string \<rightharpoonup> jsval"

definition lookup :: "obj \<Rightarrow> string \<Rightarrow> jsval" where
  "lookup data key = (case data key of None \<Rightarrow> JUndefined | Some v \<Rightarrow> v)"

text \<open>Truthiness, as tested by \<^verbatim>\<open>c ? a : b\<close>, \<^verbatim>\<open>if (c)\<close> and \<^verbatim>\<open>&&\<close>.\<close>

fun truthy :: "jsval \<Rightarrow> bool" where
  "truthy JUndefined = False"
| "truthy JNull = False"
| "truthy (JBool b) = b"
| "truthy (JStr s) = (s \<noteq> [])"
| "truthy (JObj ps) = True"

text \<open>The string put in place of \<^verbatim>\<open>${v}\<close> in a template literal and of an argument of
  \<^verbatim>\<open>String.prototype.concat\<close>.\<close>

fun ToString :: "jsval \<Rightarrow> string" where
  "ToString JUndefined = ''undefined''"
| "ToString JNull = ''null''"
| "ToString (JBool b) = (if b then ''true'' else ''false'')"
| "ToString (JStr s) = s"
| "ToString (JObj ps) = ''[object Object]''"

text \<open>Member access \<^verbatim>\<open>v.key\<close> on a value that is neither \<^verbatim>\<open>null\<close> nor \<^verbatim>\<open>undefined\<close>
  (the only use, \<^verbatim>\<open>link.url\<close>, is guarded by the truthiness of \<^verbatim>\<open>link\<close>): an own property
  of an object, \<^verbatim>\<open>undefined\<close> on a string or a boolean, which have no property \<^verbatim>\<open>url\<close>.\<close>

fun member :: "jsval \<Rightarrow> string \<Rightarrow> jsval" where
  "member (JObj ps) key = (case map_of ps key of None \<Rightarrow> JUndefined | Some v \<Rightarrow> v)"
| "member v key = JUndefined"

section \<open>Annotation pipeline: the getter \<^verbatim>\<open>stylize\<close> (lines 312-359)\<close>

definition pick :: "string \<Rightarrow> obj \<Rightarrow> jsval" where
  "pick key data = lookup data key"

definition ifTrue :: "(obj \<Rightarrow> jsval) \<Rightarrow> (obj \<Rightarrow> obj) \<Rightarrow> (obj \<Rightarrow> obj) \<Rightarrow> obj \<Rightarrow> obj" where
  "ifTrue predicate transformer orElse data =
     (if truthy (predicate data) then transformer data else orElse data)"

definition returnOrigin :: "obj \<Rightarrow> obj" where
  "returnOrigin x = x"

definition annotateEquation :: "obj \<Rightarrow> obj" where
  "annotateEquation =
     ifTrue (pick ''equation'')
       (\<lambda>data. [''content'' \<mapsto> JStr (''$'' @ ToString (lookup data ''content'') @ ''$'')])
       returnOrigin"

definition annotateBold :: "obj \<Rightarrow> obj" where
  "annotateBold =
     ifTrue (pick ''bold'')
       (\<lambda>data. [''content'' \<mapsto> JStr (''**'' @ ToString (lookup data ''content'') @ ''**'')])
       returnOrigin"

definition annotateItalic :: "obj \<Rightarrow> obj" where
  "annotateItalic =
     ifTrue (pick ''italic'')
       (\<lambda>data. [''content'' \<mapsto> JStr (''_'' @ ToString (lookup data ''content'') @ ''_'')])
       returnOrigin"

definition annotateCode :: "obj \<Rightarrow> obj" where
  "annotateCode =
     ifTrue (pick ''code'')
       (\<lambda>data. [''content'' \<mapsto> JStr (''`'' @ ToString (lookup data ''content'') @ ''`'')])
       returnOrigin"

definition annotateStrikethrough :: "obj \<Rightarrow> obj" where
  "annotateStrikethrough =
     ifTrue (pick ''strikethrough'')
       (\<lambda>data. [''content'' \<mapsto> JStr (''~~'' @ ToString (lookup data ''content'') @ ''~~'')])
       returnOrigin"

definition annotateUnderline :: "obj \<Rightarrow> obj" where
  "annotateUnderline =
     ifTrue (pick ''underline'')
       (\<lambda>data. [''content'' \<mapsto> JStr (''<u>'' @ ToString (lookup data ''content'') @ ''</u>'')])
       returnOrigin"

text \<open>\<^verbatim>\<open>color != "default"\<close>: loose inequality with a string holds for every value but that
  string itself.\<close>

definition annotateColor :: "obj \<Rightarrow> obj" where
  "annotateColor =
     ifTrue (\<lambda>data. JBool (lookup data ''color'' \<noteq> JStr ''default''))
       (\<lambda>data. [''content'' \<mapsto> JStr (''<span notion-color=\"'' @ ToString (lookup data ''color'')
                    @ ''\">'' @ ToString (lookup data ''content'') @ ''</span>'')])
       returnOrigin"

definition annotateLink :: "obj \<Rightarrow> obj" where
  "annotateLink =
     ifTrue (pick ''link'')
       (\<lambda>data. [''content'' \<mapsto> JStr (''['' @ ToString (lookup data ''content'') @ ''](''
                    @ ToString (if truthy (member (lookup data ''link'') ''url'')
                                then member (lookup data ''link'') ''url''
                                else lookup data ''link'')
                    @ '')'')])
       returnOrigin"

text \<open>
  Modelled from the spec: \<^verbatim>\<open>pipeExtend\<close> comes from the package \<^verbatim>\<open>or-pipets\<close>, which is
  not under \<^verbatim>\<open>src/\<close>. The spec has every stage pass its input through when its condition
  is false and wrap the content when it is true, with the flags still read by the later
  stages; a stage that fires returns only \<^verbatim>\<open>{content: ...}\<close>, so the result of a stage
  extends the object the stage was given: \<^verbatim>\<open>{...data, ...stage(data)}\<close>.
\<close>

definition pipeExtend :: "(obj \<Rightarrow> obj) \<Rightarrow> obj \<Rightarrow> obj" where
  "pipeExtend stage data = data ++ stage data"

text \<open>
  Modelled from the spec: \<^verbatim>\<open>process\<close> of a pipe built by \<^verbatim>\<open>pipeExtend(a).pipeExtend(b)...\<close>,
  also from \<^verbatim>\<open>or-pipets\<close>. The spec calls the pipeline a strict ordered composition
  applied in fixed left-to-right order: a pipe is the list of its stages in the order
  they were added, and \<^verbatim>\<open>process\<close> runs them from the left.
\<close>

definition process :: "(obj \<Rightarrow> obj) list \<Rightarrow> obj \<Rightarrow> obj" where
  "process stages data = foldl (\<lambda>d stage. pipeExtend stage d) data stages"

definition stylize :: "(obj \<Rightarrow> obj) list" where
  "stylize =
     [annotateBold, annotateItalic, annotateCode, annotateStrikethrough,
      annotateUnderline, annotateColor, annotateLink, annotateEquation]"

section \<open>Inline text renderer: \<^verbatim>\<open>blockToString\<close> (lines 166-199)\<close>

text \<open>
  A raw span of a rich-text field, as the content API delivers it. \<^verbatim>\<open>text\<close> and
  \<^verbatim>\<open>annotations\<close> are objects that the renderer spreads into the span context (an absent
  one spreads to nothing, like the empty object). \<^verbatim>\<open>equation.expression\<close> is read only
  when the type is \<^verbatim>\<open>"equation"\<close> and \<^verbatim>\<open>mention\<close> only when it is \<^verbatim>\<open>"mention"\<close>; of a
  mention, \<^verbatim>\<open>date.start\<close> and \<^verbatim>\<open>date.end\<close> are read only when its type is \<^verbatim>\<open>"date"\<close>
  (\<open>None\<close> is an end that is \<^verbatim>\<open>null\<close>). Spans that lack a field the code dereferences are
  excluded by these types.
\<close>

record mention =
  mention_type :: string
  date_start :: string
  date_end :: "string option"

record textBlock =
  tb_type :: string
  tb_text :: obj
  tb_annotations :: obj
  plain_text :: string
  equation_expression :: string
  tb_mention :: mention

text \<open>The arrow of a date range, U+2192, in UTF-8.\<close>

definition arrow :: string where
  "arrow = [CHR 0xE2, CHR 0x86, CHR 0x92]"

text \<open>The object \<^verbatim>\<open>data\<close> that the reducer builds for one span before it calls the pipeline.\<close>

definition spanData :: "textBlock \<Rightarrow> obj" where
  "spanData textBlock =
     (let data = tb_text textBlock ++ tb_annotations textBlock;
          data = (if tb_type textBlock = ''equation''
                  then data(''content'' \<mapsto> JStr (equation_expression textBlock),
                            ''equation'' \<mapsto> JBool True)
                  else data)
      in if tb_type textBlock = ''mention'' then
           (let m = tb_mention textBlock;
                data = (if mention_type m = ''user''
                        then data(''content'' \<mapsto> JStr (plain_text textBlock)) else data);
                data = (if mention_type m = ''date'' then
                          (let content =
                                 (if (case date_end m of None \<Rightarrow> False | Some e \<Rightarrow> e \<noteq> [])
                                  then date_start m @ '' '' @ arrow @ '' '' @ date_start m
                                  else date_start m)
                           in data(''content'' \<mapsto>
                                JStr (''<time datetime=\"'' @ content @ ''\">'' @ content @ ''</time>'')))
                        else data)
            in if mention_type m = ''page''
               then data(''content'' \<mapsto> JStr (plain_text textBlock)) else data)
         else data)"

definition blockToString :: "textBlock list \<Rightarrow> string" where
  "blockToString textBlocks =
     foldl (\<lambda>text textBlock.
              text @ ToString (lookup (process stylize (spanData textBlock)) ''content''))
       [] textBlocks"

section \<open>Markdown emitter: \<^verbatim>\<open>notionBlockToMarkdown\<close> (lines 208-309)\<close>

text \<open>
  A node of the content tree. \<open>block_type\<close> is the type tag, a string as in the source.
  A block of the content API carries its payload under the key named by its type, so
  \<open>block_text\<close> and \<open>checked\<close> stand for \<^verbatim>\<open>block[block.type].text\<close> and
  \<^verbatim>\<open>block.to_do.checked\<close>, and \<^verbatim>\<open>block.paragraph\<close> is defined exactly for a node whose tag
  is \<^verbatim>\<open>"paragraph"\<close>. \<open>children\<close> is read only under \<^verbatim>\<open>has_children\<close>, where the fetcher has
  attached it. A record handed to the emitter is a node with the empty tag.
\<close>

datatype block =
  Block (block_id: string) (block_type: string) (has_children: bool)
        (block_text: "textBlock list") (checked: bool) (children: "block list")

definition EOL_MD :: string where
  "EOL_MD = [CHR 0x0A]"

definition startsWith :: "string \<Rightarrow> string \<Rightarrow> bool" where
  "startsWith s pre = (take (length pre) s = pre)"

definition endsWith :: "string \<Rightarrow> string \<Rightarrow> bool" where
  "endsWith s suf = (length suf \<le> length s \<and> drop (length s - length suf) s = suf)"

text \<open>\<^verbatim>\<open>s.split("_")\<close>. The emitter reads the part at index 1 of a tag that starts with
  \<^verbatim>\<open>heading_\<close>, which has that part.\<close>

fun split_underscore :: "string \<Rightarrow> string list" where
  "split_underscore [] = [[]]"
| "split_underscore (c # cs) =
     (if c = CHR ''_'' then [] # split_underscore cs
      else (case split_underscore cs of [] \<Rightarrow> [[c]] | w # ws \<Rightarrow> (c # w) # ws))"

text \<open>
  \<^verbatim>\<open>Number(s)\<close> as the count of \<^verbatim>\<open>"#".repeat\<close>, for the part \<open>s\<close> of a heading tag after its
  first underscore. The model is for the tags of the content API, \<^verbatim>\<open>heading_1\<close> to
  \<^verbatim>\<open>heading_3\<close>: a string of decimal digits gives its value (the empty string 0, as
  \<^verbatim>\<open>Number("")\<close> does). For every other string the model gives 0, which is what the code
  does where \<^verbatim>\<open>Number\<close> gives \<^verbatim>\<open>NaN\<close>. It is not what the code does for the other
  numerals that \<^verbatim>\<open>Number\<close> reads (with a sign, a fraction, an exponent, a radix prefix or
  white space around them), nor for digit strings so long that \<^verbatim>\<open>Number\<close> rounds them or
  \<^verbatim>\<open>repeat\<close> raises a RangeError: such tags are outside the model.
\<close>

definition digit_val :: "char \<Rightarrow> nat option" where
  "digit_val c =
     (let n = (of_char c :: nat) in if 48 \<le> n \<and> n \<le> 57 then Some (n - 48) else None)"

fun Number_from :: "nat \<Rightarrow> string \<Rightarrow> nat" where
  "Number_from acc [] = acc"
| "Number_from acc (c # cs) =
     (case digit_val c of None \<Rightarrow> 0 | Some d \<Rightarrow>
        if list_all (\<lambda>x. digit_val x \<noteq> None) cs then Number_from (10 * acc + d) cs else 0)"

definition Number :: "string \<Rightarrow> nat" where
  "Number s = Number_from 0 s"

text \<open>
  The arrow function and the callback of its \<^verbatim>\<open>reduce\<close>, which call each other. In the
  callback \<open>block\<close> is the node whose children are being reduced and \<open>childBlock\<close> the
  child being visited.
\<close>

function notionBlockToMarkdown :: "block \<Rightarrow> bool \<Rightarrow> nat \<Rightarrow> string"
  and reducer :: "block \<Rightarrow> bool \<Rightarrow> nat \<Rightarrow> string \<Rightarrow> block \<Rightarrow> string"
where
  "notionBlockToMarkdown block lowerTitleLevel depth =
     foldl (\<lambda>acc childBlock. reducer block lowerTitleLevel depth acc childBlock)
       [] (children block)"
| "reducer block lowerTitleLevel depth acc childBlock =
     (let childBlocksString =
            (if has_children childBlock
             then concat (replicate depth ''  '') @ []
                  @ notionBlockToMarkdown childBlock lowerTitleLevel (depth + 2) @ EOL_MD
             else [])
      in if block_type childBlock = ''paragraph'' then
           (let p = blockToString (block_text childBlock);
                isTableRow = (startsWith p ''|'' \<and> endsWith p ''|'');
                isCodeSnippetLine =
                  (block_type block = ''paragraph'' \<and>
                   (case block_text block of [] \<Rightarrow> False
                    | first # rest \<Rightarrow> plain_text first \<noteq> [] \<and> startsWith (plain_text first) ''```''))
            in acc @ p
               @ (if isTableRow \<or> isCodeSnippetLine then EOL_MD else EOL_MD @ EOL_MD)
               @ childBlocksString)
         else if startsWith (block_type childBlock) ''heading_'' then
           (let headingLevel = Number (split_underscore (block_type childBlock) ! 1)
            in acc @ EOL_MD
               @ (if lowerTitleLevel then ''#'' else [])
               @ replicate headingLevel CHR ''#''
               @ '' ''
               @ blockToString (block_text childBlock)
               @ EOL_MD
               @ childBlocksString)
         else if block_type childBlock = ''to_do'' then
           acc @ (''- ['' @ (if checked childBlock then ''x'' else '' '') @ ''] '')
               @ blockToString (block_text childBlock)
               @ EOL_MD
               @ childBlocksString
         else if block_type childBlock = ''bulleted_list_item'' then
           acc @ ''* ''
               @ blockToString (block_text childBlock)
               @ EOL_MD
               @ childBlocksString
         else if block_type childBlock = ''numbered_list_item'' then
           acc @ ''1. ''
               @ blockToString (block_text childBlock)
               @ EOL_MD
               @ childBlocksString
         else if block_type childBlock = ''toggle'' then
           acc @ ''<details><summary>''
               @ blockToString (block_text childBlock)
               @ ''</summary>''
               @ childBlocksString
               @ ''</details>''
         else if block_type childBlock = ''unsupported'' then
           acc @ ''<!-- This block is not supported by Notion API yet. -->''
               @ EOL_MD
               @ childBlocksString
         else acc)"
  by pat_completeness auto

termination
proof (relation "measure (\<lambda>x. case x of Inl (b, l, d) \<Rightarrow> 2 * size b + 1
                                     | Inr (b, l, d, acc, c) \<Rightarrow> 2 * size c + 2)")
  fix block :: block and lowerTitleLevel depth acc and childBlock :: block
  assume "childBlock \<in> set (children block)"
  then have "size childBlock < size block"
    by (cases block) (auto simp: less_Suc_eq_le size_list_estimation')
  then show "(Inr (block, lowerTitleLevel, depth, acc, childBlock),
              Inl (block, lowerTitleLevel, depth))
             \<in> measure (\<lambda>x. case x of Inl (b, l, d) \<Rightarrow> 2 * size b + 1
                                     | Inr (b, l, d, acc, c) \<Rightarrow> 2 * size c + 2)"
    by simp
qed auto

section \<open>Property normalizer: \<^verbatim>\<open>getNotionPageProperties\<close> (lines 143-164)\<close>

text \<open>
  An entry of a record's property map is \<^verbatim>\<open>{id, type, [type]: value}\<close>: \<open>prop_value\<close> is
  the field named by the entry's type, a span sequence for the types \<^verbatim>\<open>title\<close> and
  \<^verbatim>\<open>rich_text\<close>, a string once rendered, any other value otherwise. The property map is
  an association list in the order of \<^verbatim>\<open>Object.keys\<close>; \<^verbatim>\<open>page.properties[key]\<close> is
  \<open>map_of\<close>. Of a record the model keeps the fields that the functions below read.
\<close>

datatype pvalue = Spans "textBlock list" | Rendered string | Json jsval

record property =
  prop_id :: string
  prop_type :: string
  prop_value :: pvalue

record page =
  page_id :: string
  properties :: "(string \<times> property) list"
  page_children :: "block list"

record normalized =
  n_id :: string
  n_key :: string
  n_value :: pvalue
  n_type :: string

datatype error = ReferenceError string | TypeError

text \<open>\<^verbatim>\<open>page.properties[key].rich_text = v\<close>: the entry keeps its place in the map.\<close>

fun assign_rich_text :: "string \<Rightarrow> pvalue \<Rightarrow> (string \<times> property) list \<Rightarrow> (string \<times> property) list" where
  "assign_rich_text key v [] = []"
| "assign_rich_text key v ((k, p) # ps) =
     (if k = key then (k, p\<lparr>prop_value := v\<rparr>) # ps else (k, p) # assign_rich_text key v ps)"

text \<open>
  The callback of the \<^verbatim>\<open>reduce\<close> over \<^verbatim>\<open>Object.keys(page.properties)\<close>, run over the keys
  that are left, with the record threaded through because line 151 assigns into it.

  At line 151 the name \<^verbatim>\<open>blockToString\<close> is a free identifier (the method is reached as
  \<^verbatim>\<open>this.blockToString\<close>, as line 205 does), so it is resolved in the scopes around the
  class. \<open>scope\<close> is its binding there: \<open>None\<close> when there is none, as in the module as
  written, which binds \<^verbatim>\<open>YAML\<close>, \<^verbatim>\<open>fetch\<close>, \<^verbatim>\<open>errorMessage\<close>, \<^verbatim>\<open>pipeExtend\<close> and
  \<^verbatim>\<open>NotionAPIPlugin\<close> only; the evaluation then raises a ReferenceError before anything is
  assigned. A function bound to the name is applied to the entry's span sequence (a value
  that is no array has no \<^verbatim>\<open>reduce\<close>: TypeError).
\<close>

fun reduce_properties ::
  "(textBlock list \<Rightarrow> string) option \<Rightarrow> string list \<Rightarrow> (string \<rightharpoonup> normalized) \<Rightarrow> page
     \<Rightarrow> (error + (string \<rightharpoonup> normalized)) \<times> page" where
  "reduce_properties scope [] acc page = (Inr acc, page)"
| "reduce_properties scope (key # keys) acc page =
     (case map_of (properties page) key of
        None \<Rightarrow> (Inl TypeError, page)
      | Some entry \<Rightarrow>
          if prop_type entry = ''title'' then reduce_properties scope keys acc page
          else if prop_type entry = ''rich_text'' then
            (case scope of
               None \<Rightarrow> (Inl (ReferenceError ''blockToString''), page)
             | Some f \<Rightarrow>
                 (case prop_value entry of
                    Spans spans \<Rightarrow>
                      reduce_properties scope keys
                        (acc(key \<mapsto> \<lparr>n_id = prop_id entry, n_key = key,
                                      n_value = Rendered (f spans), n_type = prop_type entry\<rparr>))
                        (page\<lparr>properties :=
                                 assign_rich_text key (Rendered (f spans)) (properties page)\<rparr>)
                  | _ \<Rightarrow> (Inl TypeError, page)))
          else
            reduce_properties scope keys
              (acc(key \<mapsto> \<lparr>n_id = prop_id entry, n_key = key,
                            n_value = prop_value entry, n_type = prop_type entry\<rparr>))
              page)"

definition getNotionPageProperties ::
  "(textBlock list \<Rightarrow> string) option \<Rightarrow> page \<Rightarrow> (error + (string \<rightharpoonup> normalized)) \<times> page" where
  "getNotionPageProperties scope page =
     reduce_properties scope (map fst (properties page)) Map.empty page"

section \<open>Block tree fetcher: \<^verbatim>\<open>getBlocks\<close> (lines 102-141) and \<^verbatim>\<open>getPages\<close> (lines 58-100)\<close>

text \<open>
  What \<^verbatim>\<open>await fetch(...).then((res) => res.json())\<close> gives the loop. \<open>Failed\<close>: the request
  or the parsing of its body is rejected (or the body parses to \<^verbatim>\<open>null\<close>), so the
  \<^verbatim>\<open>try\<close> block is left before any assignment. \<open>Reply results next_cursor has_more\<close>: a
  parsed object; \<open>results\<close> is \<open>None\<close> when the field is missing or cannot be iterated (the
  error body of the content API), \<open>next_cursor\<close> is the empty string for any falsy value,
  \<open>has_more\<close> is the truthiness of the field. The items of \<open>results\<close> are objects.
\<close>

datatype 'a response = Failed | Reply "'a list option" string bool

text \<open>
  A source answers the requests sent to one endpoint: it is given the number of requests
  sent to that endpoint before, the identifier in the URL, and the cursor in the request
  (\<open>None\<close> when the request carries none). The headers and the page size are the same in
  every request and are left out. The state threaded through the fetcher is the number
  of requests sent so far, so the difference of two states counts requests.
\<close>

type_synonym 'a source = "nat \<Rightarrow> string \<Rightarrow> string option \<Rightarrow> 'a response"

definition attach :: "block \<Rightarrow> block list \<Rightarrow> block" where
  "attach childBlock blocks =
     Block (block_id childBlock) (block_type childBlock) (has_children childBlock)
           (block_text childBlock) (checked childBlock) blocks"

text \<open>
  Both loops may run forever, so the functions take fuel: \<open>None\<close> is a run that needs more
  of it. \<open>getBlocks_while\<close> is the \<^verbatim>\<open>while\<close> loop of \<^verbatim>\<open>getBlocks\<close> from the state
  (\<open>hasMore\<close>, \<open>blockContent\<close>, \<open>startCursor\<close>), and \<open>getBlocks_for\<close> the \<^verbatim>\<open>for\<close> loop in it,
  which calls \<^verbatim>\<open>getBlocks\<close> again. Every exception is caught inside the loop, so there
  is no error result.
\<close>

fun getBlocks_while ::
    "nat \<Rightarrow> block source \<Rightarrow> string \<Rightarrow> bool \<Rightarrow> block list \<Rightarrow> string \<Rightarrow> nat
       \<Rightarrow> (block list \<times> nat) option"
  and getBlocks_for ::
    "nat \<Rightarrow> block source \<Rightarrow> block list \<Rightarrow> nat \<Rightarrow> (block list \<times> nat) option"
where
  "getBlocks_while 0 fetch blockId hasMore blockContent startCursor n = None"
| "getBlocks_while (Suc fuel) fetch blockId hasMore blockContent startCursor n =
     (if \<not> hasMore then Some (blockContent, n)
      else
        (case fetch n blockId (if startCursor \<noteq> [] then Some startCursor else None) of
           Failed \<Rightarrow> getBlocks_while fuel fetch blockId hasMore blockContent startCursor (Suc n)
         | Reply None next_cursor has_more \<Rightarrow>
             getBlocks_while fuel fetch blockId hasMore blockContent startCursor (Suc n)
         | Reply (Some results) next_cursor has_more \<Rightarrow>
             (case getBlocks_for fuel fetch results (Suc n) of
                None \<Rightarrow> None
              | Some (results', n') \<Rightarrow>
                  getBlocks_while fuel fetch blockId has_more (blockContent @ results')
                    next_cursor n')))"
| "getBlocks_for fuel fetch [] n = Some ([], n)"
| "getBlocks_for fuel fetch (childBlock # rest) n =
     (if has_children childBlock then
        (case getBlocks_while fuel fetch (block_id childBlock) True [] [] n of
           None \<Rightarrow> None
         | Some (blocks, n') \<Rightarrow>
             (case getBlocks_for fuel fetch rest n' of
                None \<Rightarrow> None
              | Some (rest', n'') \<Rightarrow> Some (attach childBlock blocks # rest', n'')))
      else
        (case getBlocks_for fuel fetch rest n of
           None \<Rightarrow> None
         | Some (rest', n'') \<Rightarrow> Some (childBlock # rest', n'')))"

definition getBlocks :: "nat \<Rightarrow> block source \<Rightarrow> string \<Rightarrow> nat \<Rightarrow> (block list \<times> nat) option" where
  "getBlocks fuel fetch blockId n = getBlocks_while fuel fetch blockId True [] [] n"

text \<open>
  \<^verbatim>\<open>getPages\<close>: the state of the \<^verbatim>\<open>while\<close> loop is (\<open>hasMore\<close>, \<open>startCursor\<close>, the cursor
  held by \<^verbatim>\<open>body\<close>, \<open>pages\<close>); \<^verbatim>\<open>body.start_cursor\<close> is written only under a truthy
  \<open>startCursor\<close> and keeps its value otherwise. \<open>hasMore\<close> and \<open>startCursor\<close> are assigned
  before the \<^verbatim>\<open>for\<close> loop, so a reply whose \<open>results\<close> cannot be iterated leaves the
  \<^verbatim>\<open>try\<close> block with both already updated. The state counts the requests to the query
  endpoint and those to the block-children endpoint.
\<close>

fun getPages_for ::
  "nat \<Rightarrow> block source \<Rightarrow> page list \<Rightarrow> nat \<Rightarrow> (page list \<times> nat) option" where
  "getPages_for fuel fetch [] n = Some ([], n)"
| "getPages_for fuel fetch (page # rest) n =
     (case getBlocks fuel fetch (page_id page) n of
        None \<Rightarrow> None
      | Some (blocks, n') \<Rightarrow>
          (case getPages_for fuel fetch rest n' of
             None \<Rightarrow> None
           | Some (rest', n'') \<Rightarrow> Some (page\<lparr>page_children := blocks\<rparr> # rest', n'')))"

fun getPages_while ::
  "nat \<Rightarrow> page source \<Rightarrow> block source \<Rightarrow> string \<Rightarrow> bool \<Rightarrow> string \<Rightarrow> string option
     \<Rightarrow> page list \<Rightarrow> nat \<times> nat \<Rightarrow> (page list \<times> nat \<times> nat) option" where
  "getPages_while 0 query fetch databaseId hasMore startCursor body pages (q, n) = None"
| "getPages_while (Suc fuel) query fetch databaseId hasMore startCursor body pages (q, n) =
     (if \<not> hasMore then Some (pages, q, n)
      else
        (let body = (if startCursor \<noteq> [] then Some startCursor else body) in
         case query q databaseId body of
           Failed \<Rightarrow>
             getPages_while fuel query fetch databaseId hasMore startCursor body pages (Suc q, n)
         | Reply None next_cursor has_more \<Rightarrow>
             getPages_while fuel query fetch databaseId has_more next_cursor body pages (Suc q, n)
         | Reply (Some results) next_cursor has_more \<Rightarrow>
             (case getPages_for fuel fetch results n of
                None \<Rightarrow> None
              | Some (results', n') \<Rightarrow>
                  getPages_while fuel query fetch databaseId has_more next_cursor body
                    (pages @ results') (Suc q, n'))))"


section \<open>Notions used to state the properties\<close>

subsection \<open>Wrappers of the annotation pipeline, in the words of the specification\<close>

definition wrapped :: "bool \<Rightarrow> string \<Rightarrow> string \<Rightarrow> string \<Rightarrow> string" where
  "wrapped active before after x = (if active then before @ x @ after else x)"

text \<open>The seven style wrappers, innermost first: bold, italic, code, strikethrough,
  underline, colour, link. The flags are read from \<open>data\<close>, the string wrapped is \<open>x\<close>.\<close>

definition spec_styles :: "obj \<Rightarrow> string \<Rightarrow> string" where
  "spec_styles data x =
     wrapped (truthy (lookup data ''link'')) ''[''
       ('']('' @ ToString (if truthy (member (lookup data ''link'') ''url'')
                          then member (lookup data ''link'') ''url''
                          else lookup data ''link'') @ '')'')
    (wrapped (lookup data ''color'' \<noteq> JStr ''default'')
       (''<span notion-color=\"'' @ ToString (lookup data ''color'') @ ''\">'') ''</span>''
    (wrapped (truthy (lookup data ''underline'')) ''<u>'' ''</u>''
    (wrapped (truthy (lookup data ''strikethrough'')) ''~~'' ''~~''
    (wrapped (truthy (lookup data ''code'')) ''`'' ''`''
    (wrapped (truthy (lookup data ''italic'')) ''_'' ''_''
    (wrapped (truthy (lookup data ''bold'')) ''**'' ''**'' x))))))"

text \<open>The whole pipeline: the equation wrapper comes last, around the others.\<close>

definition spec_stylize :: "obj \<Rightarrow> string \<Rightarrow> string" where
  "spec_stylize data x =
     wrapped (truthy (lookup data ''equation'')) ''$'' ''$'' (spec_styles data x)"

text \<open>No style flag, colour or link is active.\<close>

definition unstyled :: "obj \<Rightarrow> bool" where
  "unstyled data =
     (\<not> truthy (lookup data ''bold'') \<and> \<not> truthy (lookup data ''italic'') \<and>
      \<not> truthy (lookup data ''code'') \<and> \<not> truthy (lookup data ''strikethrough'') \<and>
      \<not> truthy (lookup data ''underline'') \<and> lookup data ''color'' = JStr ''default'' \<and>
      \<not> truthy (lookup data ''link''))"

definition time_element :: "string \<Rightarrow> string" where
  "time_element content = ''<time datetime=\"'' @ content @ ''\">'' @ content @ ''</time>''"

subsection \<open>Block kinds that the emitter recognizes\<close>

definition recognized :: "string \<Rightarrow> bool" where
  "recognized t =
     (t = ''paragraph'' \<or> startsWith t ''heading_'' \<or> t = ''to_do'' \<or>
      t = ''bulleted_list_item'' \<or> t = ''numbered_list_item'' \<or> t = ''toggle'' \<or>
      t = ''unsupported'')"

subsection \<open>Lines that the emitter ends with a single newline\<close>




subsection \<open>Property maps\<close>

definition input_keys :: "page \<Rightarrow> string set" where
  "input_keys page = fst ` set (properties page)"

definition typed_keys :: "string \<Rightarrow> page \<Rightarrow> string set" where
  "typed_keys t page =
     {key. case map_of (properties page) key of None \<Rightarrow> False | Some entry \<Rightarrow> prop_type entry = t}"

subsection \<open>Paginated sources\<close>














section \<open>Concrete inputs\<close>

text \<open>Annotations with no flag set, as the content API delivers them, and a span context
  with content \<^verbatim>\<open>"x"\<close>, bold set and the link \<^verbatim>\<open>{url: "u"}\<close>.\<close>

definition plain_annotations :: obj where
  "plain_annotations =
     [''bold'' \<mapsto> JBool False, ''italic'' \<mapsto> JBool False, ''strikethrough'' \<mapsto> JBool False,
      ''underline'' \<mapsto> JBool False, ''code'' \<mapsto> JBool False, ''color'' \<mapsto> JStr ''default'']"

definition bold_link_context :: obj where
  "bold_link_context =
     [''content'' \<mapsto> JStr ''x'', ''link'' \<mapsto> JObj [(''url'', JStr ''u'')]]
       ++ plain_annotations(''bold'' \<mapsto> JBool True)"

definition no_mention :: mention where
  "no_mention = \<lparr>mention_type = [], date_start = [], date_end = None\<rparr>"

definition bold_equation :: textBlock where
  "bold_equation =
     \<lparr>tb_type = ''equation'', tb_text = Map.empty,
      tb_annotations = plain_annotations(''bold'' \<mapsto> JBool True),
      plain_text = ''e'', equation_expression = ''e'', tb_mention = no_mention\<rparr>"

definition plain_equation :: textBlock where
  "plain_equation = bold_equation\<lparr>tb_annotations := plain_annotations\<rparr>"

definition date_mention :: "string \<Rightarrow> string option \<Rightarrow> textBlock" where
  "date_mention start end =
     \<lparr>tb_type = ''mention'', tb_text = Map.empty, tb_annotations = plain_annotations,
      plain_text = start, equation_expression = [],
      tb_mention = \<lparr>mention_type = ''date'', date_start = start, date_end = end\<rparr>\<rparr>"

text \<open>A plain text span, a paragraph block holding one, a record as the emitter receives
  it, a block of a kind the emitter does not know, and two records for the normalizer.\<close>

definition text_span :: "string \<Rightarrow> textBlock" where
  "text_span s =
     \<lparr>tb_type = ''text'', tb_text = [''content'' \<mapsto> JStr s, ''link'' \<mapsto> JNull],
      tb_annotations = plain_annotations, plain_text = s, equation_expression = [],
      tb_mention = no_mention\<rparr>"

definition paragraph_block :: "string \<Rightarrow> string \<Rightarrow> block list \<Rightarrow> block" where
  "paragraph_block ident s kids = Block ident ''paragraph'' (kids \<noteq> []) [text_span s] False kids"

definition record_node :: "block list \<Rightarrow> block" where
  "record_node kids = Block ''record'' [] True [] False kids"

definition image_block :: block where
  "image_block = Block ''b7'' ''image'' True [] False [paragraph_block ''b8'' ''caption'' []]"

definition summary_page :: page where
  "summary_page =
     \<lparr>page_id = ''r1'',
      properties =
        [(''Name'', \<lparr>prop_id = ''title'', prop_type = ''title'', prop_value = Spans [text_span ''Hi'']\<rparr>),
         (''Summary'', \<lparr>prop_id = ''a1'', prop_type = ''rich_text'',
                        prop_value = Spans [text_span ''World'']\<rparr>)],
      page_children = []\<rparr>"

definition checkbox_page :: page where
  "checkbox_page =
     \<lparr>page_id = ''r2'',
      properties =
        [(''Name'', \<lparr>prop_id = ''title'', prop_type = ''title'', prop_value = Spans [text_span ''Hi'']\<rparr>),
         (''Done'', \<lparr>prop_id = ''a2'', prop_type = ''checkbox'', prop_value = Json (JBool True)\<rparr>)],
      page_children = []\<rparr>"

text \<open>
  Sources. \<open>flaky_listing\<close> serves three pages of one childless block each, chained by
  the cursors \<^verbatim>\<open>c1\<close> and \<^verbatim>\<open>c2\<close>, and fails once, on the second request; with
  \<open>stuck_listing\<close> the request for the second page fails every time.
\<close>

definition leaf :: "string \<Rightarrow> block" where
  "leaf ident = Block ident ''paragraph'' False [text_span ident] False []"


definition stuck_listing :: "block source" where
  "stuck_listing k ident cursor =
     (if cursor = None then Reply (Some [leaf ''a'']) ''c1'' True else Failed)"











section \<open>Properties of the annotation pipeline and of the inline text renderer\<close>

lemma pipeExtend_frame:
  "key \<noteq> ''content'' \<Longrightarrow>
   pipeExtend (ifTrue P (\<lambda>data. [''content'' \<mapsto> T data]) returnOrigin) d key = d key"
  by (simp add: pipeExtend_def ifTrue_def returnOrigin_def map_add_def split: option.splits)

lemma pipeExtend_content:
  "lookup (pipeExtend (ifTrue P (\<lambda>data. [''content'' \<mapsto> T data]) returnOrigin) d) ''content'' =
     (if truthy (P d) then T d else lookup d ''content'')"
  by (simp add: pipeExtend_def ifTrue_def returnOrigin_def map_add_def lookup_def split: option.splits)

lemma pipeExtend_lookup:
  "key \<noteq> ''content'' \<Longrightarrow>
   lookup (pipeExtend (ifTrue P (\<lambda>data. [''content'' \<mapsto> T data]) returnOrigin) d) key = lookup d key"
  by (simp add: lookup_def pipeExtend_frame)

lemma process_Nil: "process [] d = d" by (simp add: process_def)
lemma process_Cons: "process (f # fs) d = process fs (pipeExtend f d)" by (simp add: process_def)

lemmas stages_def =
  annotateBold_def annotateItalic_def annotateCode_def annotateStrikethrough_def
  annotateUnderline_def annotateColor_def annotateLink_def annotateEquation_def

lemma stylize_content:
  "ToString (lookup (process stylize d) ''content'') = spec_stylize d (ToString (lookup d ''content''))"
  unfolding stylize_def process_Cons process_Nil stages_def
  by (simp add: pipeExtend_content pipeExtend_lookup pick_def spec_stylize_def spec_styles_def wrapped_def)

lemma stage_frame:
  "key \<noteq> ''content'' \<Longrightarrow> list_all (\<lambda>stage. \<forall>d. pipeExtend stage d key = d key) stylize"
  unfolding stylize_def stages_def by (simp add: pipeExtend_frame)

lemma process_frame:
  "list_all (\<lambda>stage. \<forall>d. pipeExtend stage d key = d key) stages \<Longrightarrow> process stages d key = d key"
  by (induction stages arbitrary: d) (simp_all add: process_Nil process_Cons)

lemma list_all_take: "list_all P xs \<Longrightarrow> list_all P (take n xs)"
  by (induction xs arbitrary: n) (auto simp: take_Cons split: nat.splits)

text \<open>
  Claim C2. For every span context the content that the pipeline returns is the content
  it was given, wrapped by bold, italic, code, strikethrough, underline, colour, link and
  equation in this order, each wrapper being applied exactly when its flag in the given
  context is active. For the context with content \<^verbatim>\<open>"x"\<close>, bold set and the link
  \<^verbatim>\<open>{url: "u"}\<close> the result is \<^verbatim>\<open>[**x**](u)\<close> and not \<^verbatim>\<open>**[x](u)**\<close>.
\<close>
theorem annotation_order:
  "ToString (lookup (process stylize data) ''content'')
     = spec_stylize data (ToString (lookup data ''content''))
   \<and> ToString (lookup (process stylize bold_link_context) ''content'') = ''[**x**](u)''
   \<and> ToString (lookup (process stylize bold_link_context) ''content'') \<noteq> ''**[x](u)**''"
  unfolding stylize_content
  by (simp add: spec_stylize_def spec_styles_def wrapped_def bold_link_context_def
      plain_annotations_def lookup_def)

text \<open>
  Claim C9. A stage of the pipeline replaces at most the field \<^verbatim>\<open>content\<close>: every other
  key of the context, present or absent, reads the same in the object passed on, after
  one stage and after any number of leading stages, so the condition of a later stage
  does not depend on an earlier stage having fired.
\<close>
theorem stage_keeps_other_fields:
  "key \<noteq> ''content'' \<Longrightarrow>
   list_all (\<lambda>stage. pipeExtend stage data key = data key) stylize
   \<and> process (take n stylize) data key = data key"
proof
  assume k: "key \<noteq> ''content''"
  from stage_frame [OF k] show "list_all (\<lambda>stage. pipeExtend stage data key = data key) stylize"
    by (simp add: list_all_iff)
  from stage_frame [OF k] show "process (take n stylize) data key = data key"
    by (intro process_frame list_all_take)
qed

theorem stage_keeps_other_fields_witness:
  "''bold'' \<noteq> ''content''
   \<and> list_all (\<lambda>stage. pipeExtend stage bold_link_context ''bold'' = Some (JBool True)) stylize
   \<and> process (take 7 stylize) bold_link_context ''bold'' = Some (JBool True)"
  using stage_keeps_other_fields [of "''bold''" bold_link_context 7]
  by (simp add: bold_link_context_def plain_annotations_def)

lemma spanData_equation:
  "tb_type tb = ''equation'' \<Longrightarrow>
   spanData tb = (tb_text tb ++ tb_annotations tb)
                   (''content'' \<mapsto> JStr (equation_expression tb), ''equation'' \<mapsto> JBool True)"
  by (simp add: spanData_def)

lemma blockToString_single:
  "blockToString [tb] = spec_stylize (spanData tb) (ToString (lookup (spanData tb) ''content''))"
  by (simp add: blockToString_def stylize_content)

lemma spec_styles_cong:
  "(\<And>k. k \<in> {''link'', ''color'', ''underline'', ''strikethrough'', ''code'', ''italic'', ''bold''} \<Longrightarrow> lookup d k = lookup d' k)
   \<Longrightarrow> spec_styles d x = spec_styles d' x"
  by (simp add: spec_styles_def)

lemma spec_styles_unstyled: "unstyled d \<Longrightarrow> spec_styles d x = x"
  by (simp add: spec_styles_def unstyled_def wrapped_def)

text \<open>
  Claim C6, amended. A span of kind equation renders as its expression wrapped by the
  style wrappers whose flags are active, in pipeline order, between two dollar signs;
  when no style flag, colour or link is active it renders as exactly \<^verbatim>\<open>$expr$\<close>.
\<close>
theorem equation_span:
  "tb_type tb = ''equation'' \<Longrightarrow>
   blockToString [tb]
     = ''$'' @ spec_styles (tb_text tb ++ tb_annotations tb) (equation_expression tb) @ ''$''
   \<and> (unstyled (tb_text tb ++ tb_annotations tb) \<longrightarrow>
        blockToString [tb] = ''$'' @ equation_expression tb @ ''$'')"
proof -
  assume t: "tb_type tb = ''equation''"
  let ?d = "tb_text tb ++ tb_annotations tb"
  have s: "spec_styles (spanData tb) x = spec_styles ?d x" for x
    by (rule spec_styles_cong) (auto simp: spanData_equation [OF t] lookup_def)
  have "blockToString [tb] = ''$'' @ spec_styles ?d (equation_expression tb) @ ''$''"
    unfolding blockToString_single
    by (simp add: spec_stylize_def s wrapped_def) (simp add: spanData_equation [OF t] lookup_def)
  then show ?thesis by (simp add: spec_styles_unstyled)
qed

theorem equation_span_witness:
  "tb_type plain_equation = ''equation'' \<and> unstyled (tb_text plain_equation ++ tb_annotations plain_equation)
   \<and> blockToString [plain_equation] = ''$e$''"
proof -
  have u: "unstyled (tb_text plain_equation ++ tb_annotations plain_equation)"
    by (simp add: unstyled_def plain_equation_def bold_equation_def plain_annotations_def lookup_def)
  have t: "tb_type plain_equation = ''equation''"
    by (simp add: plain_equation_def bold_equation_def)
  have e: "equation_expression plain_equation = ''e''"
    by (simp add: plain_equation_def bold_equation_def)
  from equation_span [OF t] u
  have "blockToString [plain_equation] = ''$'' @ equation_expression plain_equation @ ''$''"
    by blast
  with t u e show ?thesis by simp
qed

text \<open>With bold set, the equation span with expression \<^verbatim>\<open>e\<close> renders as \<^verbatim>\<open>$**e**$\<close>.\<close>

theorem equation_span_counterexample:
  "tb_type bold_equation = ''equation'' \<and> equation_expression bold_equation = ''e''
   \<and> blockToString [bold_equation] = ''$**e**$''"
  unfolding blockToString_single
  by (simp add: spec_stylize_def spec_styles_def wrapped_def spanData_def bold_equation_def
      plain_annotations_def lookup_def)

lemma spanData_date:
  "tb_type tb = ''mention'' \<Longrightarrow> mention_type (tb_mention tb) = ''date'' \<Longrightarrow>
   spanData tb = (tb_text tb ++ tb_annotations tb)(''content'' \<mapsto> JStr (time_element
       (if (case date_end (tb_mention tb) of None \<Rightarrow> False | Some e \<Rightarrow> e \<noteq> [])
        then date_start (tb_mention tb) @ '' '' @ arrow @ '' '' @ date_start (tb_mention tb)
        else date_start (tb_mention tb))))"
  by (simp add: spanData_def time_element_def Let_def)

text \<open>
  Claim C7. A date mention with no style flag active renders as a \<^verbatim>\<open>time\<close> element whose
  attribute and body are the start date when the mention has no end date (for the start
  \<^verbatim>\<open>2021-01-01\<close>: \<^verbatim>\<open><time datetime="2021-01-01">2021-01-01</time>\<close>), and, when it has an
  end date, the start date, a space, the arrow U+2192 (the bytes E2 86 92 in UTF-8), a
  space and the start date again.
\<close>

theorem date_mention_rendering:
  assumes "tb_type tb = ''mention''" and "mention_type (tb_mention tb) = ''date''"
    and "unstyled (tb_text tb ++ tb_annotations tb)"
    and "\<not> truthy (lookup (tb_text tb ++ tb_annotations tb) ''equation'')"
  shows "(date_start (tb_mention tb) = ''2021-01-01'' \<and> date_end (tb_mention tb) = None \<longrightarrow>
            blockToString [tb] = ''<time datetime=\"2021-01-01\">2021-01-01</time>'')
       \<and> (date_end (tb_mention tb) = None \<longrightarrow>
            blockToString [tb] = time_element (date_start (tb_mention tb)))
       \<and> (\<forall>e. date_end (tb_mention tb) = Some e \<and> e \<noteq> [] \<longrightarrow>
            blockToString [tb]
              = ''<time datetime=\"'' @ date_start (tb_mention tb)
                  @ [CHR 0x20, CHR 0xE2, CHR 0x86, CHR 0x92, CHR 0x20]
                  @ date_start (tb_mention tb) @ ''\">'' @ date_start (tb_mention tb)
                  @ [CHR 0x20, CHR 0xE2, CHR 0x86, CHR 0x92, CHR 0x20]
                  @ date_start (tb_mention tb) @ ''</time>'')"
proof -
  let ?d = "tb_text tb ++ tb_annotations tb"
  let ?c = "(if (case date_end (tb_mention tb) of None \<Rightarrow> False | Some e \<Rightarrow> e \<noteq> [])
        then date_start (tb_mention tb) @ '' '' @ arrow @ '' '' @ date_start (tb_mention tb)
        else date_start (tb_mention tb))"
  note sd = spanData_date [OF assms(1,2)]
  have s: "spec_styles (spanData tb) x = spec_styles ?d x" for x
    by (rule spec_styles_cong) (auto simp: sd lookup_def)
  have q: "\<not> truthy (lookup (spanData tb) ''equation'')"
    using assms(4) by (simp add: sd lookup_def)
  have "blockToString [tb] = time_element ?c"
    unfolding blockToString_single
    by (simp add: spec_stylize_def s wrapped_def q spec_styles_unstyled [OF assms(3)])
       (simp add: sd lookup_def)
  then show ?thesis by (auto simp: time_element_def arrow_def)
qed

theorem date_mention_rendering_witness:
  "blockToString [date_mention ''2021-01-01'' None]
     = ''<time datetime=\"2021-01-01\">2021-01-01</time>''
   \<and> blockToString [date_mention ''2021-01-01'' (Some ''2021-01-02'')]
     = ''<time datetime=\"2021-01-01'' @ [CHR 0x20, CHR 0xE2, CHR 0x86, CHR 0x92, CHR 0x20]
         @ ''2021-01-01\">2021-01-01'' @ [CHR 0x20, CHR 0xE2, CHR 0x86, CHR 0x92, CHR 0x20]
         @ ''2021-01-01</time>''"
proof -
  have u: "unstyled (tb_text (date_mention s e) ++ tb_annotations (date_mention s e))"
    and q: "\<not> truthy (lookup (tb_text (date_mention s e) ++ tb_annotations (date_mention s e)) ''equation'')"
    for s e
    by (simp_all add: unstyled_def date_mention_def plain_annotations_def lookup_def)
  have t: "tb_type (date_mention s e) = ''mention''"
    "mention_type (tb_mention (date_mention s e)) = ''date''"
    "date_start (tb_mention (date_mention s e)) = s"
    "date_end (tb_mention (date_mention s e)) = e" for s e
    by (simp_all add: date_mention_def)
  from date_mention_rendering [OF t(1,2) u q, of "''2021-01-01''" None]
       date_mention_rendering [OF t(1,2) u q, of "''2021-01-01''" "Some ''2021-01-02''"]
  show ?thesis by (simp add: t)
qed

lemma blockToString_text_span [simp]: "blockToString [text_span s] = s"
  by (simp add: blockToString_single spec_stylize_def spec_styles_def wrapped_def
      spanData_def text_span_def plain_annotations_def lookup_def)


section \<open>Properties of the markdown emitter\<close>




text \<open>
  Under a node that is no paragraph, as every record is, a paragraph is never taken for
  a code-fence line: only a table row is followed by a single newline.
\<close>

lemma paragraph_under_other_parent:
  "block_type childBlock = ''paragraph'' \<Longrightarrow> block_type block \<noteq> ''paragraph'' \<Longrightarrow>
   reducer block lowerTitleLevel depth acc childBlock
     = acc @ blockToString (block_text childBlock)
         @ (if startsWith (blockToString (block_text childBlock)) ''|''
               \<and> endsWith (blockToString (block_text childBlock)) ''|''
            then EOL_MD else EOL_MD @ EOL_MD)
         @ (if has_children childBlock
            then concat (replicate depth ''  '')
                 @ notionBlockToMarkdown childBlock lowerTitleLevel (depth + 2) @ EOL_MD
            else [])"
  by (simp add: Let_def del: notionBlockToMarkdown.simps)

lemma reducer_unrecognized:
  "\<not> recognized (block_type childBlock) \<Longrightarrow> reducer block l depth acc childBlock = acc"
  by (simp add: recognized_def Let_def del: notionBlockToMarkdown.simps)

lemma reducer_parent:
  "block_type b = block_type b' \<Longrightarrow> block_text b = block_text b' \<Longrightarrow>
   reducer b l d acc c = reducer b' l d acc c"
  by (simp del: notionBlockToMarkdown.simps)

text \<open>
  Claim C10. Visiting a block whose type tag is none of the recognized kinds returns the
  accumulator unchanged, whether or not the block has children; the output for a node
  is the same with and without such a child among its children, so the child's subtree
  contributes nothing.
\<close>
theorem unrecognized_block_skipped:
  "\<not> recognized (block_type childBlock) \<Longrightarrow>
   reducer block lowerTitleLevel depth acc childBlock = acc
   \<and> notionBlockToMarkdown (Block ident tag hc spans chk (before @ childBlock # after)) lowerTitleLevel depth
     = notionBlockToMarkdown (Block ident tag hc spans chk (before @ after)) lowerTitleLevel depth"
proof
  assume u: "\<not> recognized (block_type childBlock)"
  show "reducer block lowerTitleLevel depth acc childBlock = acc"
    by (rule reducer_unrecognized [OF u])
  let ?B = "Block ident tag hc spans chk (before @ childBlock # after)"
  let ?B' = "Block ident tag hc spans chk (before @ after)"
  have e: "(\<lambda>acc c. reducer ?B lowerTitleLevel depth acc c)
         = (\<lambda>acc c. reducer ?B' lowerTitleLevel depth acc c)"
    by (intro ext reducer_parent) simp_all
  show "notionBlockToMarkdown ?B lowerTitleLevel depth = notionBlockToMarkdown ?B' lowerTitleLevel depth"
    apply (subst notionBlockToMarkdown.simps)
    apply (subst notionBlockToMarkdown.simps)
    apply (simp only: e block.sel foldl_append foldl_Cons reducer_unrecognized [OF u])
    done
qed


theorem unrecognized_block_skipped_witness:
  "\<not> recognized (block_type image_block) \<and> has_children image_block
   \<and> reducer (record_node [image_block]) True 0 ''abc'' image_block = ''abc''
   \<and> notionBlockToMarkdown (record_node ([paragraph_block ''b1'' ''x'' []] @ image_block # [])) True 0
     = notionBlockToMarkdown (record_node ([paragraph_block ''b1'' ''x'' []] @ [])) True 0"
proof -
  have u: "\<not> recognized (block_type image_block)"
    by (simp add: recognized_def image_block_def startsWith_def)
  have h: "has_children image_block" by (simp add: image_block_def)
  note s = unrecognized_block_skipped [where childBlock = image_block
      and block = "record_node [image_block]" and lowerTitleLevel = True and depth = 0
      and acc = "''abc''" and ident = "''record''" and tag = "[]" and hc = True and spans = "[]"
      and chk = False and before = "[paragraph_block ''b1'' ''x'' []]" and after = "[]", OF u]
  from s u h show ?thesis
    by (simp add: record_node_def del: notionBlockToMarkdown.simps reducer.simps)
qed

section \<open>Properties of the property normalizer\<close>

text \<open>In the module as written, a property map with a rich-text entry makes the
  normalizer raise, whatever else the map holds.\<close>

lemma reduce_properties_rich_text:
  "set keys \<subseteq> input_keys page \<Longrightarrow> set keys \<inter> typed_keys ''rich_text'' page \<noteq> {} \<Longrightarrow>
   reduce_properties None keys acc page = (Inl (ReferenceError ''blockToString''), page)"
proof (induction keys arbitrary: acc)
  case Nil
  then show ?case by simp
next
  case (Cons key keys)
  from Cons.prems obtain entry where e: "map_of (properties page) key = Some entry"
    by (cases "map_of (properties page) key") (auto simp: input_keys_def map_of_eq_None_iff)
  from Cons.prems have k: "set keys \<subseteq> input_keys page" by simp
  show ?case
  proof (cases "prop_type entry = ''rich_text''")
    case True
    with e show ?thesis by simp
  next
    case False
    with e have "key \<notin> typed_keys ''rich_text'' page" by (simp add: typed_keys_def)
    with Cons.prems(2) have r: "set keys \<inter> typed_keys ''rich_text'' page \<noteq> {}" by auto
    from e False Cons.IH [OF k r] show ?thesis by simp
  qed
qed

lemma rich_text_always_raises:
  "input_keys page \<inter> typed_keys ''rich_text'' page \<noteq> {} \<Longrightarrow>
   getNotionPageProperties None page = (Inl (ReferenceError ''blockToString''), page)"
  using reduce_properties_rich_text [of "map fst (properties page)" page Map.empty]
  by (simp add: getNotionPageProperties_def input_keys_def)

text \<open>With the renderer bound to the name, the entry is stored with the rendered string.\<close>

lemma rich_text_entry_with_renderer:
  "\<exists>out. fst (getNotionPageProperties (Some blockToString) summary_page) = Inr out
      \<and> out ''Summary'' = Some \<lparr>n_id = ''a1'', n_key = ''Summary'',
                                 n_value = Rendered ''World'', n_type = ''rich_text''\<rparr>"
  by (simp add: getNotionPageProperties_def summary_page_def)

text \<open>
  Claim C3. The claim: a rich-text entry is stored with the renderer's output as its
  value. In the module as written the call at line 151 names \<^verbatim>\<open>blockToString\<close> without
  \<^verbatim>\<open>this\<close>, so for the record below, which has a rich-text entry, the normalizer raises
  a ReferenceError and stores nothing.
\<close>
theorem rich_text_entry_raises:
  "getNotionPageProperties None summary_page = (Inl (ReferenceError ''blockToString''), summary_page)"
  by (simp add: getNotionPageProperties_def summary_page_def)

lemma reduce_properties_plain:
  "set keys \<subseteq> input_keys page \<Longrightarrow> typed_keys ''rich_text'' page = {} \<Longrightarrow>
   \<exists>out. reduce_properties scope keys acc page = (Inr out, page)
       \<and> dom out = dom acc \<union> (set keys - typed_keys ''title'' page)"
proof (induction keys arbitrary: acc)
  case Nil
  then show ?case by simp
next
  case (Cons key keys)
  from Cons.prems obtain entry where e: "map_of (properties page) key = Some entry"
    by (cases "map_of (properties page) key") (auto simp: input_keys_def map_of_eq_None_iff)
  from Cons.prems(2) have "key \<notin> typed_keys ''rich_text'' page" by simp
  with e have nr: "prop_type entry \<noteq> ''rich_text''"
    by (simp add: typed_keys_def)
  from Cons.prems have k: "set keys \<subseteq> input_keys page" by simp
  show ?case
  proof (cases "prop_type entry = ''title''")
    case True
    with e have t: "key \<in> typed_keys ''title'' page" by (simp add: typed_keys_def)
    from e True have s: "reduce_properties scope (key # keys) acc page
                       = reduce_properties scope keys acc page"
      by simp
    from Cons.IH [OF k Cons.prems(2), of acc] obtain out where
      o: "reduce_properties scope keys acc page = (Inr out, page)"
         "dom out = dom acc \<union> (set keys - typed_keys ''title'' page)"
      by blast
    from o(2) t have "dom out = dom acc \<union> (set (key # keys) - typed_keys ''title'' page)"
      by auto
    with o(1) s show ?thesis by simp
  next
    case False
    with e have t: "key \<notin> typed_keys ''title'' page" by (simp add: typed_keys_def)
    let ?acc = "acc(key \<mapsto> \<lparr>n_id = prop_id entry, n_key = key,
                            n_value = prop_value entry, n_type = prop_type entry\<rparr>)"
    from e False nr have s: "reduce_properties scope (key # keys) acc page
                       = reduce_properties scope keys ?acc page"
      by simp
    from Cons.IH [OF k Cons.prems(2), of ?acc] obtain out where
      o: "reduce_properties scope keys ?acc page = (Inr out, page)"
         "dom out = dom ?acc \<union> (set keys - typed_keys ''title'' page)"
      by blast
    from o(2) t have "dom out = dom acc \<union> (set (key # keys) - typed_keys ''title'' page)"
      by auto
    with o(1) s show ?thesis by simp
  qed
qed

text \<open>
  For every property map with no rich-text-typed entry the normalizer returns an output,
  leaves the record as it was, and the key set of the output is the key set of the input
  without the title-typed keys.
\<close>

lemma normalizer_frame:
  "typed_keys ''rich_text'' page = {} \<Longrightarrow>
   \<exists>out. getNotionPageProperties scope page = (Inr out, page)
       \<and> dom out = input_keys page - typed_keys ''title'' page"
  using reduce_properties_plain [of "map fst (properties page)" page scope Map.empty]
  by (simp add: getNotionPageProperties_def input_keys_def)

lemma normalizer_frame_example:
  "typed_keys ''rich_text'' checkbox_page = {}
   \<and> (\<exists>out. getNotionPageProperties None checkbox_page = (Inr out, checkbox_page)
         \<and> dom out = {''Done''})"
proof -
  have r: "typed_keys ''rich_text'' checkbox_page = {}"
    by (auto simp: typed_keys_def checkbox_page_def split: if_splits)
  have d: "input_keys checkbox_page - typed_keys ''title'' checkbox_page = {''Done''}"
    by (auto simp: typed_keys_def input_keys_def checkbox_page_def split: if_splits)
  from normalizer_frame [OF r, of None] d r show ?thesis by simp
qed

text \<open>In the module as written the normalizer leaves every record as it was: the one
  assignment into the record, at line 151, is never reached.\<close>

lemma reduce_properties_leaves_input:
  "snd (reduce_properties None keys acc page) = page"
  by (induction keys arbitrary: acc) (simp_all split: option.splits)

lemma normalizer_leaves_input: "snd (getNotionPageProperties None page) = page"
  by (simp add: getNotionPageProperties_def reduce_properties_leaves_input)

text \<open>
  Claim C8. The claim: the normalizer leaves the input map unchanged and returns an
  output whose key set is the key set of the input without the title-typed key. For the
  record below the key set claimed is \<^verbatim>\<open>{Summary}\<close>; the normalizer leaves the record
  unchanged but raises the ReferenceError of line 151 and returns no output.
\<close>

theorem normalizer_gives_no_output:
  "fst (getNotionPageProperties None summary_page) = Inl (ReferenceError ''blockToString'')
   \<and> snd (getNotionPageProperties None summary_page) = summary_page
   \<and> input_keys summary_page - typed_keys ''title'' summary_page = {''Summary''}"
proof -
  have "input_keys summary_page - typed_keys ''title'' summary_page = {''Summary''}"
    by (auto simp: typed_keys_def input_keys_def summary_page_def split: if_splits)
  then show ?thesis
    by (simp add: normalizer_leaves_input) (simp add: getNotionPageProperties_def summary_page_def)
qed

section \<open>Properties of the block tree fetcher\<close>

text \<open>
  One iteration on a failure and on a reply without results. In \<^verbatim>\<open>getBlocks\<close> both are
  retried with the state unchanged; in \<^verbatim>\<open>getPages\<close> a reply without results has already
  set \<open>hasMore\<close>, so an error body, which has no has-more field, ends the loop with the
  records collected so far.
\<close>

lemma getPages_error_body_ends:
  "query q databaseId (if cur \<noteq> [] then Some cur else body) = Reply None [] False \<Longrightarrow>
   getPages_while (Suc (Suc fuel)) query fetch databaseId True cur body pages (q, n)
     = Some (pages, Suc q, n)"
  by (simp add: Let_def)



lemma getBlocks_while_done:
  "getBlocks_while (Suc fuel) fetch blockId False acc cur n = Some (acc, n)"
  by simp


lemma getPages_while_done:
  "getPages_while (Suc fuel) query fetch databaseId False cur body acc (q, n) = Some (acc, q, n)"
  by simp










text \<open>
  What the \<^verbatim>\<open>for\<close> loops return: the items they were given, in order, each with the
  children fetched for it attached; the children of an item are what \<^verbatim>\<open>getBlocks\<close> returns
  for its identifier. Items without children are handed on as they are and cost no
  request.
\<close>

lemma getBlocks_for_childless:
  "list_all (\<lambda>b. \<not> has_children b) items \<Longrightarrow> getBlocks_for fuel fetch items n = Some (items, n)"
  by (induction items) simp_all


lemma getBlocks_for_children:
  "getBlocks_for fuel fetch (b # items) n = Some (b' # items', n') \<Longrightarrow> has_children b \<Longrightarrow>
   \<exists>m. getBlocks fuel fetch (block_id b) n = Some (children b', m)"
  by (auto simp: getBlocks_def attach_def split: option.splits prod.splits)


lemma getPages_for_children:
  "getPages_for fuel fetch (p # pages) n = Some (p' # pages', n') \<Longrightarrow>
   \<exists>m. getBlocks fuel fetch (page_id p) n = Some (page_children p', m)"
  by (auto split: option.splits prod.splits)






text \<open>With \<open>stuck_listing\<close> no amount of fuel gives a result: the loop does not end.\<close>

lemma stuck_after_first:
  "getBlocks_while fuel stuck_listing blockId True acc ''c1'' n = None"
  by (induction fuel arbitrary: n) (simp_all add: stuck_listing_def)

lemma stuck_listing_never_returns: "getBlocks fuel stuck_listing blockId n = None"
proof (cases fuel)
  case 0
  then show ?thesis by (simp add: getBlocks_def)
next
  case (Suc f)
  have "getBlocks (Suc f) stuck_listing blockId n
          = getBlocks_while f stuck_listing blockId True [leaf ''a''] ''c1'' (Suc n)"
    by (simp add: getBlocks_def stuck_listing_def leaf_def del: getBlocks_while.simps(2))
       (simp add: stuck_listing_def leaf_def)
  with Suc show ?thesis by (simp add: stuck_after_first)
qed












end
